theory Spec2Isabelle
  imports Complex_Main "HOL-Library.Multiset" "HOL-Library.Sublist" "HOL-Library.List_Lexorder"
    "HOL-Library.Char_ord"
begin

section \<open>Data model (models/schemas.py)\<close>

text \<open>
  Python \<open>str\<close> is modelled as \<open>string\<close>; the model is exact on ASCII text (a character
  outside ASCII stands as its UTF-8 bytes). Python \<open>int\<close> is \<open>int\<close>. A Python \<open>float\<close> is
  modelled as the rational number it denotes (\<open>rat\<close>); the only float operations the modelled
  code performs itself are the true division of two integers and comparisons with the
  literals 0.3, 0.4, 0.5 and 1.5, which agree with the exact rational comparison for every
  list shorter than \<open>2^50\<close> entries.
\<close>

datatype BiasType = LANGUAGE_COMPLEXITY | PACE_MISMATCH | PRIOR_EXPOSURE_GAP | REPRESENTATION_ISSUE

datatype SeverityLevel = LOW | MEDIUM | HIGH

datatype AdaptationType = SIMPLIFY_LANGUAGE | ADD_EXAMPLES | CHANGE_REPRESENTATION | ADJUST_PACE

text \<open>The \<open>.value\<close> of the string enums.\<close>

fun BiasType_value :: "BiasType \<Rightarrow> string" where
  "BiasType_value LANGUAGE_COMPLEXITY = ''language_complexity''"
| "BiasType_value PACE_MISMATCH = ''pace_mismatch''"
| "BiasType_value PRIOR_EXPOSURE_GAP = ''prior_exposure_gap''"
| "BiasType_value REPRESENTATION_ISSUE = ''representation_issue''"

fun AdaptationType_value :: "AdaptationType \<Rightarrow> string" where
  "AdaptationType_value SIMPLIFY_LANGUAGE = ''simplify_language''"
| "AdaptationType_value ADD_EXAMPLES = ''add_examples''"
| "AdaptationType_value CHANGE_REPRESENTATION = ''change_representation''"
| "AdaptationType_value ADJUST_PACE = ''adjust_pace''"

record InteractionData =
  session_hash :: string
  content_id :: string
  response_time_ms :: int
  action_type :: string
  content_text :: "string option"
  is_repeated_error :: bool
  clarification_count :: int
  time_on_content_seconds :: int

text \<open>Values of the \<open>comprehension_indicators\<close> dictionary (\<open>Dict[str, Any]\<close>).\<close>

datatype ind_val = VStr string | VBool bool

record InteractionAnalysisResult =
  res_session_hash :: string
  response_pattern :: string
  engagement_level :: string
  comprehension_indicators :: "string \<rightharpoonup> ind_val"
  requires_adaptation :: bool
  suggested_adaptations :: "AdaptationType list"

section \<open>Interaction analyzer (modules/interaction_analyzer.py)\<close>

text \<open>The instance attributes set by \<open>__init__\<close> from the class defaults.\<close>

record InteractionAnalyzer =
  slow_response_threshold :: int
  fast_response_threshold :: int
  high_clarification_threshold :: int

definition DEFAULT_SLOW_RESPONSE_MS :: int where
  "DEFAULT_SLOW_RESPONSE_MS = 10000"

definition DEFAULT_FAST_RESPONSE_MS :: int where
  "DEFAULT_FAST_RESPONSE_MS = 1000"

definition DEFAULT_HIGH_CLARIFICATION_COUNT :: int where
  "DEFAULT_HIGH_CLARIFICATION_COUNT = 3"

definition InteractionAnalyzer_init :: InteractionAnalyzer where
  "InteractionAnalyzer_init =
     \<lparr> slow_response_threshold = DEFAULT_SLOW_RESPONSE_MS,
       fast_response_threshold = DEFAULT_FAST_RESPONSE_MS,
       high_clarification_threshold = DEFAULT_HIGH_CLARIFICATION_COUNT \<rparr>"

definition classify_response_pattern :: "InteractionAnalyzer \<Rightarrow> int \<Rightarrow> string \<Rightarrow> string" where
  "classify_response_pattern self rt act =
     (if act = ''clarification'' then ''seeking_help''
      else if rt > slow_response_threshold self then ''deliberate''
      else if rt < fast_response_threshold self then ''quick''
      else ''normal'')"

definition assess_engagement :: "int \<Rightarrow> string \<Rightarrow> int \<Rightarrow> string" where
  "assess_engagement time_on_content act clar =
     (if act = ''question'' \<or> clar > 0 then ''high''
      else if time_on_content > 60 then ''high''
      else if time_on_content < 5 then ''low''
      else ''medium'')"

definition build_comprehension_indicators ::
  "InteractionAnalyzer \<Rightarrow> InteractionData \<Rightarrow> (string \<rightharpoonup> ind_val)" where
  "build_comprehension_indicators self interaction =
     (let indicators = [''response_speed'' \<mapsto> VStr ''normal'',
                        ''help_seeking'' \<mapsto> VBool False,
                        ''persistence'' \<mapsto> VBool True,
                        ''content_engagement'' \<mapsto> VStr ''present''];
          indicators =
            (if response_time_ms interaction > slow_response_threshold self
             then indicators(''response_speed'' \<mapsto> VStr ''taking_time'')
             else if response_time_ms interaction < fast_response_threshold self
             then indicators(''response_speed'' \<mapsto> VStr ''quick'')
             else indicators);
          indicators =
            (if clarification_count interaction > 0 \<or> action_type interaction = ''clarification''
             then indicators(''help_seeking'' \<mapsto> VBool True)
             else indicators);
          indicators =
            (if is_repeated_error interaction
             then indicators(''persistence'' \<mapsto> VBool True,
                             ''may_benefit_from'' \<mapsto> VStr ''alternative_explanation'')
             else indicators)
      in indicators)"

definition determine_adaptations ::
  "InteractionAnalyzer \<Rightarrow> InteractionData \<Rightarrow> (string \<rightharpoonup> ind_val)
     \<Rightarrow> bool \<times> AdaptationType list" where
  "determine_adaptations self interaction indicators =
     (let adaptations = [];
          adaptations =
            (if indicators ''response_speed'' = Some (VStr ''taking_time'')
             then adaptations @ [SIMPLIFY_LANGUAGE] else adaptations);
          adaptations =
            (if is_repeated_error interaction
             then adaptations @ [ADD_EXAMPLES] @ [CHANGE_REPRESENTATION] else adaptations);
          adaptations =
            (if clarification_count interaction \<ge> high_clarification_threshold self
             then adaptations @ [SIMPLIFY_LANGUAGE] else adaptations);
          requires = (length adaptations > 0)
      in (requires, adaptations))"

definition analyze_single_interaction ::
  "InteractionAnalyzer \<Rightarrow> InteractionData \<Rightarrow> InteractionAnalysisResult" where
  "analyze_single_interaction self interaction =
     (let pattern = classify_response_pattern self
                      (response_time_ms interaction) (action_type interaction);
          engagement = assess_engagement (time_on_content_seconds interaction)
                         (action_type interaction) (clarification_count interaction);
          indicators = build_comprehension_indicators self interaction;
          (requires, suggested) = determine_adaptations self interaction indicators
      in \<lparr> res_session_hash = session_hash interaction,
           response_pattern = pattern,
           engagement_level = engagement,
           comprehension_indicators = indicators,
           requires_adaptation = requires,
           suggested_adaptations = suggested \<rparr>)"

text \<open>The fixture \<open>slow_interaction\<close> of tests/conftest.py.\<close>

definition slow_interaction :: InteractionData where
  "slow_interaction =
     \<lparr> session_hash = ''test_session_slow'', content_id = ''content_abc'',
       response_time_ms = 25000, action_type = ''read'',
       content_text = Some ''Complex content'', is_repeated_error = True,
       clarification_count = 0, time_on_content_seconds = 120 \<rparr>"

section \<open>Python strings and the regular expressions of the source\<close>

text \<open>
  The characters \<open>str.isspace\<close>, \<open>str.strip\<close>, \<open>str.split\<close> and the regular expression
  class \<open>\s\<close> treat as white space, in the ASCII range.
\<close>

definition is_space :: "char \<Rightarrow> bool" where
  "is_space c = (c \<in> set [CHR 0x09, CHR 0x0A, CHR 0x0B, CHR 0x0C, CHR 0x0D,
                            CHR 0x1C, CHR 0x1D, CHR 0x1E, CHR 0x1F, CHR 0x20])"

definition is_upper :: "char \<Rightarrow> bool" where
  "is_upper c = (c \<in> set ''ABCDEFGHIJKLMNOPQRSTUVWXYZ'')"

definition is_lower :: "char \<Rightarrow> bool" where
  "is_lower c = (c \<in> set ''abcdefghijklmnopqrstuvwxyz'')"

definition is_digit :: "char \<Rightarrow> bool" where
  "is_digit c = (c \<in> set ''0123456789'')"

definition is_alpha :: "char \<Rightarrow> bool" where
  "is_alpha c = (is_upper c \<or> is_lower c)"

text \<open>The class \<open>\w\<close>, which decides the word boundary \<open>\b\<close>.\<close>

definition is_word :: "char \<Rightarrow> bool" where
  "is_word c = (is_alpha c \<or> is_digit c \<or> c = CHR ''_'')"

text \<open>The sentence punctuation \<open>[.!?]\<close>.\<close>

definition is_punct :: "char \<Rightarrow> bool" where
  "is_punct c = (c \<in> set ''.!?'')"

definition lower_char :: "char \<Rightarrow> char" where
  "lower_char c =
     (case map_of (zip ''ABCDEFGHIJKLMNOPQRSTUVWXYZ'' ''abcdefghijklmnopqrstuvwxyz'') c of
        Some d \<Rightarrow> d
      | None \<Rightarrow> c)"

definition lower :: "string \<Rightarrow> string" where
  "lower s = map lower_char s"

definition strip :: "string \<Rightarrow> string" where
  "strip s = rev (dropWhile is_space (rev (dropWhile is_space s)))"

text \<open>\<open>sep.join(xs)\<close>.\<close>

fun join :: "string \<Rightarrow> string list \<Rightarrow> string" where
  "join sep [] = []"
| "join sep [x] = x"
| "join sep (x # y # ys) = x @ sep @ join sep (y # ys)"

text \<open>\<open>m in s\<close> on strings: \<open>m\<close> occurs in \<open>s\<close> as a contiguous substring.\<close>

fun str_in :: "string \<Rightarrow> string \<Rightarrow> bool" where
  "str_in m [] = (m = [])"
| "str_in m (c # cs) = (prefix m (c # cs) \<or> str_in m cs)"

text \<open>\<open>s.split()\<close>: the maximal runs of characters that are not white space.\<close>

fun split_ws_acc :: "string \<Rightarrow> string \<Rightarrow> string list" where
  "split_ws_acc acc [] = (if acc = [] then [] else [acc])"
| "split_ws_acc acc (c # cs) =
     (if is_space c then (if acc = [] then split_ws_acc [] cs else acc # split_ws_acc [] cs)
      else split_ws_acc (acc @ [c]) cs)"

definition split_ws :: "string \<Rightarrow> string list" where
  "split_ws s = split_ws_acc [] s"

text \<open>
  \<open>s.split(sep)\<close> for a non-empty separator (the source only splits on two newlines):
  the pieces between the occurrences of \<open>sep\<close>, found from left to right.
\<close>

fun split_sep_acc :: "string \<Rightarrow> string \<Rightarrow> string \<Rightarrow> string list" where
  "split_sep_acc sep acc [] = [acc]"
| "split_sep_acc sep acc (c # cs) =
     (if sep \<noteq> [] \<and> prefix sep (c # cs)
      then acc # split_sep_acc sep [] (drop (length sep - 1) cs)
      else split_sep_acc sep (acc @ [c]) cs)"

definition split_sep :: "string \<Rightarrow> string \<Rightarrow> string list" where
  "split_sep sep s = split_sep_acc sep [] s"

text \<open>
  \<open>re.split(r'(?<=[.!?])\s+', s)\<close>: a cut at every maximal run of white space that follows
  one of \<open>.!?\<close>. After a cut the preceding character is white space, so the look-behind
  holds exactly when the piece read so far is non-empty and ends in punctuation.
\<close>

function split_sentences_acc :: "string \<Rightarrow> string \<Rightarrow> string list" where
  "split_sentences_acc acc [] = [acc]"
| "split_sentences_acc acc (c # cs) =
     (if is_space c \<and> acc \<noteq> [] \<and> is_punct (last acc)
      then acc # split_sentences_acc [] (dropWhile is_space cs)
      else split_sentences_acc (acc @ [c]) cs)"
  by pat_completeness auto
termination
  by (relation "measure (\<lambda>(acc, s). length s)")
     (auto simp: le_imp_less_Suc length_dropWhile_le)

definition split_sentences :: "string \<Rightarrow> string list" where
  "split_sentences s = split_sentences_acc [] s"

text \<open>
  \<open>re.split(r'([.!?]+)', s)\<close>: the pieces between the maximal runs of punctuation,
  alternating with the runs themselves (the group is captured); and
  \<open>re.split(r'[.!?]+', s)\<close>, which leaves the runs out.
\<close>

function split_punct_keep_acc :: "string \<Rightarrow> string \<Rightarrow> string list" where
  "split_punct_keep_acc acc [] = [acc]"
| "split_punct_keep_acc acc (c # cs) =
     (if is_punct c
      then acc # (c # takeWhile is_punct cs) # split_punct_keep_acc [] (dropWhile is_punct cs)
      else split_punct_keep_acc (acc @ [c]) cs)"
  by pat_completeness auto
termination
  by (relation "measure (\<lambda>(acc, s). length s)")
     (auto simp: le_imp_less_Suc length_dropWhile_le)

definition split_punct_keep :: "string \<Rightarrow> string list" where
  "split_punct_keep s = split_punct_keep_acc [] s"

function split_punct_acc :: "string \<Rightarrow> string \<Rightarrow> string list" where
  "split_punct_acc acc [] = [acc]"
| "split_punct_acc acc (c # cs) =
     (if is_punct c
      then acc # split_punct_acc [] (dropWhile is_punct cs)
      else split_punct_acc (acc @ [c]) cs)"
  by pat_completeness auto
termination
  by (relation "measure (\<lambda>(acc, s). length s)")
     (auto simp: le_imp_less_Suc length_dropWhile_le)

definition split_punct :: "string \<Rightarrow> string list" where
  "split_punct s = split_punct_acc [] s"

text \<open>
  The literal pattern \<open>re.escape(w)\<close> compiled with \<open>re.IGNORECASE\<close> matches at the head of
  \<open>s\<close>: character by character, ignoring the case of ASCII letters.
\<close>

fun ci_prefix :: "string \<Rightarrow> string \<Rightarrow> bool" where
  "ci_prefix [] s = True"
| "ci_prefix (p # ps) [] = False"
| "ci_prefix (p # ps) (c # cs) = (lower_char p = lower_char c \<and> ci_prefix ps cs)"

text \<open>
  \<open>pattern.sub(rep, s)\<close> for such a pattern: the occurrences are found from left to right
  and do not overlap; each is replaced by \<open>rep\<close>. (An empty pattern, which the table of
  the source does not hold, matches at every position.)
\<close>

fun re_sub_ci :: "string \<Rightarrow> string \<Rightarrow> string \<Rightarrow> string" where
  "re_sub_ci pat rep [] = (if pat = [] then rep else [])"
| "re_sub_ci pat rep (c # cs) =
     (if pat = [] then rep @ c # re_sub_ci pat rep cs
      else if ci_prefix pat (c # cs) then rep @ re_sub_ci pat rep (drop (length pat - 1) cs)
      else c # re_sub_ci pat rep cs)"

section \<open>Text analysis (utils/text_analysis.py)\<close>

text \<open>
  The functions of the third-party library \<open>textstat\<close> that the source calls. The library is
  not part of the repository: its functions are parameters of the model, and every theorem
  holds for whatever they compute.
\<close>

record textstat =
  flesch_kincaid_grade :: "string \<Rightarrow> rat"
  flesch_reading_ease :: "string \<Rightarrow> rat"
  gunning_fog :: "string \<Rightarrow> rat"
  smog_index :: "string \<Rightarrow> rat"
  automated_readability_index :: "string \<Rightarrow> rat"
  coleman_liau_index :: "string \<Rightarrow> rat"
  dale_chall_readability_score :: "string \<Rightarrow> rat"
  syllable_count :: "string \<Rightarrow> int"

text \<open>The dictionary returned for text that is empty or shorter than 10 characters once stripped.\<close>

definition baseline_metrics :: "string \<rightharpoonup> rat" where
  "baseline_metrics =
     [''flesch_kincaid_grade'' \<mapsto> 0,
      ''flesch_reading_ease'' \<mapsto> 100,
      ''gunning_fog'' \<mapsto> 0,
      ''smog_index'' \<mapsto> 0,
      ''automated_readability_index'' \<mapsto> 0,
      ''coleman_liau_index'' \<mapsto> 0,
      ''dale_chall_readability'' \<mapsto> 0]"

definition get_readability_metrics :: "textstat \<Rightarrow> string \<Rightarrow> (string \<rightharpoonup> rat)" where
  "get_readability_metrics ts text =
     (if text = [] \<or> length (strip text) < 10 then baseline_metrics
      else [''flesch_kincaid_grade'' \<mapsto> flesch_kincaid_grade ts text,
            ''flesch_reading_ease'' \<mapsto> flesch_reading_ease ts text,
            ''gunning_fog'' \<mapsto> gunning_fog ts text,
            ''smog_index'' \<mapsto> smog_index ts text,
            ''automated_readability_index'' \<mapsto> automated_readability_index ts text,
            ''coleman_liau_index'' \<mapsto> coleman_liau_index ts text,
            ''dale_chall_readability'' \<mapsto> dale_chall_readability_score ts text])"

text \<open>\<open>d.get(key, default)\<close>.\<close>

definition dict_get :: "('k \<rightharpoonup> 'v) \<Rightarrow> 'k \<Rightarrow> 'v \<Rightarrow> 'v" where
  "dict_get d k dflt = (case d k of Some v \<Rightarrow> v | None \<Rightarrow> dflt)"

definition get_complexity_level :: "rat \<Rightarrow> string" where
  "get_complexity_level grade =
     (if grade \<le> 6 then ''simple''
      else if grade \<le> 10 then ''moderate''
      else ''complex'')"

text \<open>The substitution table of \<open>simplify_text\<close>, in the insertion order of the dictionary.\<close>

definition replacements :: "(string \<times> string) list" where
  "replacements =
     [(''utilize'', ''use''),
      (''implement'', ''do''),
      (''facilitate'', ''help''),
      (''commence'', ''start''),
      (''terminate'', ''end''),
      (''prior to'', ''before''),
      (''subsequent to'', ''after''),
      (''in order to'', ''to''),
      (''due to the fact that'', ''because''),
      (''at this point in time'', ''now''),
      (''in the event that'', ''if''),
      (''for the purpose of'', ''to''),
      (''in addition to'', ''also''),
      (''with regard to'', ''about''),
      (''in accordance with'', ''following''),
      (''nevertheless'', ''but''),
      (''furthermore'', ''also''),
      (''consequently'', ''so''),
      (''approximately'', ''about''),
      (''sufficient'', ''enough''),
      (''demonstrate'', ''show''),
      (''indicate'', ''show''),
      (''obtain'', ''get''),
      (''require'', ''need''),
      (''assist'', ''help''),
      (''attempt'', ''try''),
      (''determine'', ''find out''),
      (''establish'', ''set up''),
      (''evaluate'', ''check''),
      (''identify'', ''find''),
      (''maintain'', ''keep''),
      (''modify'', ''change''),
      (''perform'', ''do''),
      (''provide'', ''give''),
      (''regarding'', ''about''),
      (''remain'', ''stay''),
      (''request'', ''ask for''),
      (''select'', ''choose''),
      (''therefore'', ''so''),
      (''currently'', ''now''),
      (''additional'', ''more''),
      (''component'', ''part''),
      (''methodology'', ''method''),
      (''functionality'', ''feature'')]"

text \<open>
  The loop that breaks long sentences (level "simple"): the pieces at even positions are
  sentences, those at odd positions the punctuation between them.
\<close>

fun break_sentences :: "nat \<Rightarrow> string list \<Rightarrow> string list \<Rightarrow> string list" where
  "break_sentences i [] new_sentences = new_sentences"
| "break_sentences i (sentence # rest) new_sentences =
     break_sentences (i + 1) rest
       (if i mod 2 = 0 then
          (let words = split_ws sentence in
           if length words > 20 then
             (let midpoint = length words div 2 in
              new_sentences @ [join '' '' (take midpoint words) @ ''.'']
                @ [join '' '' (drop midpoint words)])
           else new_sentences @ [sentence])
        else
          (if new_sentences \<noteq> []
           then butlast new_sentences @ [last new_sentences @ sentence]
           else new_sentences))"

definition simplify_text :: "string \<Rightarrow> string \<Rightarrow> string" where
  "simplify_text text level =
     (let simplified = fold (\<lambda>(complex_word, simple_word) simplified.
                                re_sub_ci complex_word simple_word simplified)
                            replacements text;
          simplified =
            (if level = ''simple''
             then join '' '' (break_sentences 0 (split_punct_keep simplified) [])
             else simplified)
      in strip simplified)"



section \<open>The Python runtime\<close>

text \<open>
  What the source takes from the Python runtime and its standard library. The functions of
  \<open>pylib\<close> are deterministic: \<open>hashlib.sha256(s.encode()).hexdigest()\<close>, \<open>repr\<close> of a
  string, and the float formats \<open>:.1f\<close> and \<open>:.0%\<close>. The fields of \<open>pyrun\<close> are what can
  differ from one call or one process to the next: the reading of the clock
  (\<open>datetime.utcnow().isoformat()\<close>) and the order in which a \<open>set\<close> built by the given
  insertions is iterated (it depends on the hash seed of the process).
\<close>

record pylib =
  sha256_hexdigest :: "string \<Rightarrow> string"
  repr_str :: "string \<Rightarrow> string"
  format_1f :: "rat \<Rightarrow> string"
  format_pct0 :: "rat \<Rightarrow> string"

record pyrun =
  utcnow_isoformat :: string
  set_iter_str :: "string list \<Rightarrow> string list"
  set_iter_adapt :: "AdaptationType list \<Rightarrow> AdaptationType list"

text \<open>\<open>str(n)\<close> for an integer, in decimal.\<close>

fun str_nat :: "nat \<Rightarrow> string" where
  "str_nat n =
     (if n < 10 then [''0123456789'' ! n]
      else str_nat (n div 10) @ [''0123456789'' ! (n mod 10)])"

definition str_int :: "int \<Rightarrow> string" where
  "str_int i = (if i < 0 then ''-'' @ str_nat (nat (- i)) else str_nat (nat i))"

text \<open>
  The values of the dictionary that is hashed, and \<open>str\<close> of the sorted list of its items.
  The keys of the dictionary are distinct, so sorting the (key, value) tuples orders them by
  key and never compares two values.
\<close>

datatype pyval = PStr string | PInt int | PStrList "string list"

fun repr_val :: "pylib \<Rightarrow> pyval \<Rightarrow> string" where
  "repr_val lib (PStr s) = repr_str lib s"
| "repr_val lib (PInt i) = str_int i"
| "repr_val lib (PStrList xs) = ''['' @ join '', '' (map (repr_str lib) xs) @ '']''"

definition str_sorted_items :: "pylib \<Rightarrow> (string \<times> pyval) list \<Rightarrow> string" where
  "str_sorted_items lib items =
     ''['' @ join '', ''
              (map (\<lambda>(k, v). ''('' @ repr_str lib k @ '', '' @ repr_val lib v @ '')'')
                   (sort_key fst items))
       @ '']''"

section \<open>Jargon and complex words (utils/text_analysis.py)\<close>

text \<open>
  \<open>re.findall(r'\b[a-zA-Z]+\b', s)\<close>: the maximal runs of word characters that consist of
  letters only.
\<close>

fun word_runs_acc :: "string \<Rightarrow> string \<Rightarrow> string list" where
  "word_runs_acc acc [] = (if acc = [] then [] else [acc])"
| "word_runs_acc acc (c # cs) =
     (if is_word c then word_runs_acc (acc @ [c]) cs
      else if acc = [] then word_runs_acc [] cs
      else acc # word_runs_acc [] cs)"

definition findall_alpha_words :: "string \<Rightarrow> string list" where
  "findall_alpha_words s = filter (list_all is_alpha) (word_runs_acc [] s)"

text \<open>
  The words are collected into a set and the selected ones returned sorted, so the
  result does not depend on the order in which the set is iterated.
\<close>

definition identify_complex_words :: "textstat \<Rightarrow> string \<Rightarrow> int \<Rightarrow> string list" where
  "identify_complex_words ts text syllable_threshold =
     (let words = findall_alpha_words (lower text);
          complex_words = filter (\<lambda>word. syllable_count ts word \<ge> syllable_threshold)
                                 (remdups words)
      in sort complex_words)"

text \<open>
  \<open>re.findall(r'\b(w1|w2|...)\b', s)\<close> for alternatives that are words: \<open>\b\<close> holds
  between a word character and a character that is not one (or an end of the string); the
  alternatives are tried in order; the search goes on after the end of a match.
\<close>

definition word_boundary :: "bool \<Rightarrow> string \<Rightarrow> bool" where
  "word_boundary prev_is_word s = (prev_is_word \<noteq> (s \<noteq> [] \<and> is_word (hd s)))"

definition match_alternative :: "string list \<Rightarrow> bool \<Rightarrow> string \<Rightarrow> string option" where
  "match_alternative alts prev_is_word s =
     (if word_boundary prev_is_word s
      then find (\<lambda>w. w \<noteq> [] \<and> prefix w s
                      \<and> word_boundary (is_word (last w)) (drop (length w) s)) alts
      else None)"

fun findall_alternatives :: "string list \<Rightarrow> bool \<Rightarrow> string \<Rightarrow> string list" where
  "findall_alternatives alts prev_is_word [] = []"
| "findall_alternatives alts prev_is_word (c # cs) =
     (case match_alternative alts prev_is_word (c # cs) of
        Some w \<Rightarrow> w # findall_alternatives alts (is_word (last w)) (drop (length w - 1) cs)
      | None \<Rightarrow> findall_alternatives alts (is_word c) cs)"

definition academic_markers :: "string list list" where
  "academic_markers =
     [[''therefore'', ''hence'', ''thus'', ''wherein'', ''whereby'', ''herein''],
      [''aforementioned'', ''notwithstanding'', ''pursuant''],
      [''paradigm'', ''methodology'', ''framework'', ''implementation''],
      [''utilizing'', ''commenced'', ''terminated'', ''facilitated'']]"

text \<open>The dictionaries \<open>identify_jargon_patterns\<close> returns, by their "type" entry.\<close>

datatype jargon_pattern =
    Academic_language (matches: "string list") (suggestion: string)
  | Long_sentences (count: nat) (suggestion: string)

fun jargon_type :: "jargon_pattern \<Rightarrow> string" where
  "jargon_type (Academic_language ms sg) = ''academic_language''"
| "jargon_type (Long_sentences n sg) = ''long_sentences''"

definition identify_jargon_patterns :: "pyrun \<Rightarrow> string \<Rightarrow> jargon_pattern list" where
  "identify_jargon_patterns run text =
     (let patterns =
            concat (map (\<lambda>pattern.
                           (let ms = findall_alternatives pattern False (lower text)
                            in if ms \<noteq> []
                               then [Academic_language (set_iter_str run ms)
                                       ''Consider simpler alternatives'']
                               else []))
                        academic_markers);
          sentences = split_punct text;
          long_sentences = map strip (filter (\<lambda>s. length (split_ws s) > 30) sentences)
      in if long_sentences \<noteq> []
         then patterns @ [Long_sentences (length long_sentences) ''Break into shorter sentences'']
         else patterns)"

section \<open>Bias detector (modules/bias_detector.py)\<close>

text \<open>
  An interaction pattern is a dictionary \<open>Dict[str, Any]\<close>; the detector reads its numeric
  entries (\<open>response_time_ms\<close>, \<open>clarification_count\<close>) and the truth value of
  \<open>is_repeated_error\<close>. Its values are modelled as integers (Python's \<open>bool\<close> is a subtype
  of \<open>int\<close>: \<open>False\<close> is 0 and \<open>True\<close> is 1).
\<close>

type_synonym pattern = "string \<rightharpoonup> int"

record BiasDetectionRequest =
  req_session_hash :: string
  req_content_text :: string
  interaction_patterns :: "pattern list"
  previous_adaptations :: "string list"

record BiasIndicator =
  bias_type :: BiasType
  severity :: SeverityLevel
  confidence :: rat
  description :: string
  affected_content_segment :: "string option"

record BiasDetectionResult =
  bd_session_hash :: string
  bias_detected :: bool
  indicators :: "BiasIndicator list"
  readability_score :: rat
  complexity_level :: string
  recommended_actions :: "AdaptationType list"
  analysis_timestamp :: string
  deterministic_hash :: string

text \<open>The thresholds \<open>__init__\<close> reads from the settings (config.py).\<close>

record BiasDetector =
  complexity_threshold_high :: rat
  complexity_threshold_medium :: rat

definition COMPLEXITY_THRESHOLD_HIGH :: rat where
  "COMPLEXITY_THRESHOLD_HIGH = 12"

definition COMPLEXITY_THRESHOLD_MEDIUM :: rat where
  "COMPLEXITY_THRESHOLD_MEDIUM = 8"

definition BiasDetector_init :: BiasDetector where
  "BiasDetector_init =
     \<lparr> complexity_threshold_high = COMPLEXITY_THRESHOLD_HIGH,
       complexity_threshold_medium = COMPLEXITY_THRESHOLD_MEDIUM \<rparr>"

text \<open>
  The loop over the jargon patterns: one LOW indicator for every pattern of type
  "academic_language", naming up to five of its matches.
\<close>

fun jargon_indicators :: "jargon_pattern list \<Rightarrow> BiasIndicator list" where
  "jargon_indicators [] = []"
| "jargon_indicators (pattern # rest) =
     (if jargon_type pattern = ''academic_language'' then
        [\<lparr> bias_type = LANGUAGE_COMPLEXITY, severity = LOW, confidence = 60 / 100,
            description = ''Academic jargon detected: ''
              @ join '', '' (take 5 (matches pattern)),
            affected_content_segment = None \<rparr>]
      else [])
     @ jargon_indicators rest"

definition detect_language_complexity_bias ::
  "BiasDetector \<Rightarrow> textstat \<Rightarrow> pylib \<Rightarrow> pyrun \<Rightarrow> string \<Rightarrow> (string \<rightharpoonup> rat)
     \<Rightarrow> BiasIndicator list" where
  "detect_language_complexity_bias self ts lib run content metrics =
     (let fk_grade = dict_get metrics ''flesch_kincaid_grade'' 0;
          indicators =
            (if fk_grade \<ge> complexity_threshold_high self then
               [\<lparr> bias_type = LANGUAGE_COMPLEXITY, severity = HIGH, confidence = 85 / 100,
                   description = ''Content readability at grade level '' @ format_1f lib fk_grade
                     @ '' may exclude learners without advanced vocabulary'',
                   affected_content_segment =
                     Some (if length content > 200 then take 200 content else content) \<rparr>]
             else if fk_grade \<ge> complexity_threshold_medium self then
               [\<lparr> bias_type = LANGUAGE_COMPLEXITY, severity = MEDIUM, confidence = 70 / 100,
                   description = ''Content at grade level '' @ format_1f lib fk_grade
                     @ '' - consider providing simpler alternatives'',
                   affected_content_segment = None \<rparr>]
             else []);
          jargon_patterns = identify_jargon_patterns run content;
          indicators = indicators @ jargon_indicators jargon_patterns;
          complex_words = identify_complex_words ts content 3;
          indicators = indicators @
            (if length complex_words > 10 then
               [\<lparr> bias_type = LANGUAGE_COMPLEXITY, severity = MEDIUM, confidence = 65 / 100,
                   description = ''High density of complex words (''
                     @ str_nat (length complex_words) @ '' found)'',
                   affected_content_segment = None \<rparr>]
             else [])
      in indicators)"

text \<open>
  \<open>sum(1 for t in response_times if t > slow_threshold_ms)\<close>, as the loop adds it up.
\<close>

fun count_slow :: "int \<Rightarrow> int list \<Rightarrow> int" where
  "count_slow slow_threshold_ms [] = 0"
| "count_slow slow_threshold_ms (t # ts) =
     (if t > slow_threshold_ms then 1 + count_slow slow_threshold_ms ts
      else count_slow slow_threshold_ms ts)"

definition detect_pace_mismatch :: "pylib \<Rightarrow> pattern list \<Rightarrow> BiasIndicator list" where
  "detect_pace_mismatch lib patterns =
     (if patterns = [] then []
      else
        (let response_times =
               map (\<lambda>p. dict_get p ''response_time_ms'' 0)
                   (filter (\<lambda>p. p ''response_time_ms'' \<noteq> None) patterns)
         in if response_times = [] then []
            else
              (let slow_threshold_ms = 15000;
                   slow_responses = count_slow slow_threshold_ms response_times;
                   slow_ratio = (of_int slow_responses :: rat)
                                  / of_nat (length response_times)
               in if slow_ratio > 5 / 10 then
                    [\<lparr> bias_type = PACE_MISMATCH, severity = HIGH, confidence = 75 / 100,
                        description =
                          ''Interaction patterns suggest content pace may be too fast. ''
                          @ format_pct0 lib slow_ratio
                          @ '' of responses exceeded expected time.'',
                        affected_content_segment = None \<rparr>]
                  else if slow_ratio > 3 / 10 then
                    [\<lparr> bias_type = PACE_MISMATCH, severity = MEDIUM, confidence = 60 / 100,
                        description =
                          ''Some pace mismatch detected. Consider offering ''
                          @ ''pace adjustment options.'',
                        affected_content_segment = None \<rparr>]
                  else [])))"

definition detect_prior_exposure_gaps :: "pattern list \<Rightarrow> BiasIndicator list" where
  "detect_prior_exposure_gaps patterns =
     (let clarification_count =
            sum_list (map (\<lambda>p. dict_get p ''clarification_count'' 0) patterns);
          repeated_errors =
            length (filter (\<lambda>p. dict_get p ''is_repeated_error'' 0 \<noteq> 0) patterns);
          total_interactions = length patterns
      in if total_interactions = 0 then []
         else
           (let clarification_ratio = (of_int clarification_count :: rat)
                                        / of_nat total_interactions;
                error_ratio = (of_nat repeated_errors :: rat) / of_nat total_interactions
            in (if clarification_ratio > 15 / 10 then
                  [\<lparr> bias_type = PRIOR_EXPOSURE_GAP, severity = HIGH, confidence = 70 / 100,
                      description =
                        ''High clarification rate suggests content may assume ''
                        @ ''prior knowledge that isn't universal'',
                      affected_content_segment = None \<rparr>]
                else [])
               @ (if error_ratio > 4 / 10 then
                    [\<lparr> bias_type = PRIOR_EXPOSURE_GAP, severity = MEDIUM, confidence = 65 / 100,
                        description =
                          ''Repeated errors suggest foundational concepts ''
                          @ ''may need additional scaffolding'',
                        affected_content_segment = None \<rparr>]
                  else [])))"

text \<open>
  \<open>re.search(r'^\s*[-\<bullet>*]\s+', content, re.MULTILINE)\<close>: at the start of the text or after
  a newline, white space may come first, then a hyphen, a bullet (U+2022, here its three
  UTF-8 bytes) or an asterisk, then at least one white space character.
\<close>

definition bullet :: string where
  "bullet = [CHR 0xE2, CHR 0x80, CHR 0xA2]"

definition list_item_at :: "string \<Rightarrow> bool" where
  "list_item_at s =
     (let r = dropWhile is_space s in
        (prefix ''-'' r \<and> list_ex is_space (take 1 (drop 1 r)))
      \<or> (prefix ''*'' r \<and> list_ex is_space (take 1 (drop 1 r)))
      \<or> (prefix bullet r \<and> list_ex is_space (take 1 (drop 3 r))))"

fun list_item_after_newline :: "string \<Rightarrow> bool" where
  "list_item_after_newline [] = False"
| "list_item_after_newline (c # cs) =
     ((c = CHR 0x0A \<and> list_item_at cs) \<or> list_item_after_newline cs)"

definition search_list_line :: "string \<Rightarrow> bool" where
  "search_list_line content = (list_item_at content \<or> list_item_after_newline content)"

definition detect_representation_issues :: "string \<Rightarrow> BiasIndicator list" where
  "detect_representation_issues content =
     (let example_markers =
            [''for example'', ''e.g.'', ''for instance'', ''such as'', ''example:''];
          has_examples = list_ex (\<lambda>marker. str_in marker (lower content)) example_markers;
          has_numbers = list_ex is_digit content;
          has_lists = search_list_line content
      in (if length content > 500 \<and> \<not> has_examples then
            [\<lparr> bias_type = REPRESENTATION_ISSUE, severity = LOW, confidence = 55 / 100,
                description =
                  ''Content lacks concrete examples which may ''
                  @ ''disadvantage learners who benefit from examples'',
                affected_content_segment = None \<rparr>]
          else [])
         @ (if length content > 300 \<and> \<not> has_numbers \<and> \<not> has_lists then
              [\<lparr> bias_type = REPRESENTATION_ISSUE, severity = LOW, confidence = 50 / 100,
                  description =
                    ''Content is highly abstract. Consider adding ''
                    @ ''concrete representations or structured lists.'',
                  affected_content_segment = None \<rparr>]
            else []))"

text \<open>
  The recommendations are added to a set, one indicator after the other; the list returned
  is the set in its iteration order.
\<close>

fun recommendations_of :: "BiasType \<Rightarrow> AdaptationType list" where
  "recommendations_of LANGUAGE_COMPLEXITY = [SIMPLIFY_LANGUAGE]"
| "recommendations_of PACE_MISMATCH = [ADJUST_PACE]"
| "recommendations_of PRIOR_EXPOSURE_GAP = [ADD_EXAMPLES, SIMPLIFY_LANGUAGE]"
| "recommendations_of REPRESENTATION_ISSUE = [ADD_EXAMPLES, CHANGE_REPRESENTATION]"

definition build_recommendations :: "pyrun \<Rightarrow> BiasIndicator list \<Rightarrow> AdaptationType list" where
  "build_recommendations run inds =
     set_iter_adapt run (concat (map (\<lambda>indicator. recommendations_of (bias_type indicator)) inds))"

definition generate_audit_hash :: "pylib \<Rightarrow> string \<Rightarrow> string \<Rightarrow> BiasIndicator list \<Rightarrow> string" where
  "generate_audit_hash lib session content inds =
     (let data = [(''session'', PStr session),
                  (''content_hash'', PStr (take 16 (sha256_hexdigest lib content))),
                  (''indicator_count'', PInt (int (length inds))),
                  (''indicator_types'',
                     PStrList (sort (map (\<lambda>i. BiasType_value (bias_type i)) inds)))];
          data_str = str_sorted_items lib data
      in take 16 (sha256_hexdigest lib data_str))"

definition detect_bias ::
  "BiasDetector \<Rightarrow> textstat \<Rightarrow> pylib \<Rightarrow> pyrun \<Rightarrow> BiasDetectionRequest
     \<Rightarrow> BiasDetectionResult" where
  "detect_bias self ts lib run request =
     (let readability_metrics = get_readability_metrics ts (req_content_text request);
          inds = detect_language_complexity_bias self ts lib run
                   (req_content_text request) readability_metrics;
          inds = (if interaction_patterns request \<noteq> []
                  then inds @ detect_pace_mismatch lib (interaction_patterns request)
                  else inds);
          inds = (if interaction_patterns request \<noteq> []
                  then inds @ detect_prior_exposure_gaps (interaction_patterns request)
                  else inds);
          inds = inds @ detect_representation_issues (req_content_text request);
          recommended = build_recommendations run inds;
          fk_grade = dict_get readability_metrics ''flesch_kincaid_grade'' 0;
          level = get_complexity_level fk_grade;
          audit_hash = generate_audit_hash lib (req_session_hash request)
                         (req_content_text request) inds
      in \<lparr> bd_session_hash = req_session_hash request,
           bias_detected = (length inds > 0),
           indicators = inds,
           readability_score = fk_grade,
           complexity_level = level,
           recommended_actions = recommended,
           analysis_timestamp = utcnow_isoformat run,
           deterministic_hash = audit_hash \<rparr>)"

section \<open>Adaptive engine (modules/adaptive_engine.py)\<close>

text \<open>
  The interaction signals are a dictionary \<open>Dict[str, Any]\<close>, modelled like an interaction
  pattern.
\<close>

type_synonym signals = "string \<rightharpoonup> int"

record AdaptationRequest =
  ar_session_hash :: string
  original_content :: string
  requested_adaptations :: "AdaptationType list"
  current_complexity_level :: "string option"
  interaction_signals :: signals

record AdaptedContent =
  adaptation_type :: AdaptationType
  ac_content :: string
  ac_complexity_level :: string
  changes_made :: "string list"

record AdaptationResult =
  ares_session_hash :: string
  ares_original_content :: string
  ares_adaptations :: "AdaptedContent list"
  ares_primary_recommendation :: "AdaptedContent option"
  ares_adaptation_reasoning :: string
  ares_deterministic_hash :: string

text \<open>
  Two literals of the source file hold characters outside ASCII; they stand here as the
  UTF-8 bytes of the file: the bullet of the lists it writes, and the sign before
  "Pause and reflect".
\<close>

definition engine_bullet :: string where
  "engine_bullet = [CHR 0xC3, CHR 0xA2, CHR 0xE2, CHR 0x82, CHR 0xAC, CHR 0xC2, CHR 0xA2]"

definition pause_sign :: string where
  "pause_sign = [CHR 0xC3, CHR 0xB0, CHR 0xC5, CHR 0xB8, CHR 0xE2, CHR 0x80, CHR 0x99,
                 CHR 0xC2, CHR 0xA1]"

definition newline :: string where
  "newline = [CHR 0x0A]"

subsection \<open>simplify-language\<close>

definition count_sentence_marks :: "string \<Rightarrow> nat" where
  "count_sentence_marks s =
     count_list s (CHR ''.'') + count_list s (CHR ''!'') + count_list s (CHR ''?'')"

definition simplify_language :: "textstat \<Rightarrow> pylib \<Rightarrow> string \<Rightarrow> signals \<Rightarrow> AdaptedContent" where
  "simplify_language ts lib content signals =
     (let clarifications = dict_get signals ''clarification_count'' 0;
          level = (if clarifications > 3 then ''simple'' else ''moderate'');
          simplified = simplify_text content level;
          orig_metrics = get_readability_metrics ts content;
          new_metrics = get_readability_metrics ts simplified;
          orig_grade = dict_get orig_metrics ''flesch_kincaid_grade'' 0;
          new_grade = dict_get new_metrics ''flesch_kincaid_grade'' 0;
          changes =
            (if new_grade < orig_grade
             then [''Reduced reading level from grade '' @ format_1f lib orig_grade
                     @ '' to '' @ format_1f lib new_grade]
             else []);
          orig_words = remdups (split_ws (lower content));
          new_words = remdups (split_ws (lower simplified));
          replaced_count = length (filter (\<lambda>w. w \<notin> set new_words) orig_words);
          changes =
            (if replaced_count > 0
             then changes @ [''Simplified '' @ str_nat replaced_count @ '' complex terms'']
             else changes);
          orig_sentences = count_sentence_marks content;
          new_sentences = count_sentence_marks simplified;
          changes =
            (if new_sentences > orig_sentences
             then changes @ [''Broke long sentences into shorter ones'']
             else changes);
          changes =
            (if changes = [] then [''Applied vocabulary simplification''] else changes)
      in \<lparr> adaptation_type = SIMPLIFY_LANGUAGE,
           ac_content = simplified,
           ac_complexity_level = level,
           changes_made = changes \<rparr>)"

subsection \<open>add-examples\<close>

text \<open>
  \<open>re.findall(r'\b[A-Z][a-z]+(?:\s+[A-Z][a-z]+)*\b', content)\<close>. A capitalised word
  is a capital and the whole run of small letters after it (a shorter run would be followed
  by a small letter, where neither \<open>\s\<close> nor \<open>\b\<close> holds). After a word the
  repetition goes on across a whole run of white space to the next capitalised word if the
  match can be completed from there; otherwise the match ends at the word, where it must
  stand at a word boundary. The length of the match is returned.
\<close>

function match_capitalized :: "string \<Rightarrow> nat option" where
  "match_capitalized [] = None"
| "match_capitalized (c # cs) =
     (let small = takeWhile is_lower cs; rest = dropWhile is_lower cs in
      if \<not> is_upper c \<or> small = [] then None
      else if rest \<noteq> [] \<and> is_space (hd rest) then
        (case match_capitalized (dropWhile is_space rest) of
           Some n \<Rightarrow> Some (1 + length small + length (takeWhile is_space rest) + n)
         | None \<Rightarrow> Some (1 + length small))
      else if rest = [] \<or> \<not> is_word (hd rest) then Some (1 + length small)
      else None)"
  by pat_completeness auto
termination
proof (relation "measure length")
  fix c :: char and cs x xa
  assume "xa = dropWhile is_lower cs"
  have "length (dropWhile is_space (dropWhile is_lower cs)) \<le> length cs"
    by (meson length_dropWhile_le order_trans)
  then show "(dropWhile is_space xa, c # cs) \<in> measure length"
    using \<open>xa = dropWhile is_lower cs\<close> by simp
qed simp

fun findall_capitalized :: "bool \<Rightarrow> string \<Rightarrow> string list" where
  "findall_capitalized prev_is_word [] = []"
| "findall_capitalized prev_is_word (c # cs) =
     (case (if prev_is_word then None else match_capitalized (c # cs)) of
        Some n \<Rightarrow> take n (c # cs) # findall_capitalized True (drop (n - 1) cs)
      | None \<Rightarrow> findall_capitalized (is_word c) cs)"

text \<open>
  \<open>re.findall(r'"([^"]+)"', content)\<close>: the non-empty texts between a double quote and
  the next one.
\<close>

function findall_quoted :: "string \<Rightarrow> string list" where
  "findall_quoted [] = []"
| "findall_quoted (c # cs) =
     (let body = takeWhile (\<lambda>d. d \<noteq> CHR 0x22) cs; rest = dropWhile (\<lambda>d. d \<noteq> CHR 0x22) cs in
      if c = CHR 0x22 \<and> body \<noteq> [] \<and> rest \<noteq> []
      then body # findall_quoted (tl rest)
      else findall_quoted cs)"
  by pat_completeness auto
termination
proof (relation "measure length")
  fix c :: char and cs x xa
  assume "xa = dropWhile (\<lambda>d. d \<noteq> CHR 0x22) cs"
  have "length (tl (dropWhile (\<lambda>d. d \<noteq> CHR 0x22) cs)) \<le> length cs"
    by (simp add: le_diff_conv le_SucI length_dropWhile_le)
  then show "(tl xa, c # cs) \<in> measure length"
    using \<open>xa = dropWhile (\<lambda>d. d \<noteq> CHR 0x22) cs\<close> by simp
qed simp_all

definition extract_key_concepts :: "pyrun \<Rightarrow> string \<Rightarrow> string list" where
  "extract_key_concepts run content =
     (let words = findall_capitalized False content;
          quoted = findall_quoted content
      in take 5 (set_iter_str run (words @ quoted)))"

definition generate_example_section :: "string list \<Rightarrow> string" where
  "generate_example_section concepts =
     (if concepts = [] then []
      else join newline
             ([''**Examples to help understand:**'', []]
              @ map (\<lambda>concept. engine_bullet @ '' **'' @ concept
                                 @ ''**: [This concept can be understood as...]'')
                    (take 3 concepts)))"

text \<open>
  \<open>re.sub(rf'\b({word})\b', r'\1 (in simpler terms)', s, count=1, flags=re.IGNORECASE)\<close>
  for a non-empty word of letters: the first occurrence of the word between word
  boundaries, ignoring case, keeps its text and is followed by the parenthesis.
\<close>

fun sub_word_once :: "string \<Rightarrow> bool \<Rightarrow> string \<Rightarrow> string" where
  "sub_word_once w prev_is_word [] = []"
| "sub_word_once w prev_is_word (c # cs) =
     (if w \<noteq> [] \<and> word_boundary prev_is_word (c # cs) \<and> ci_prefix w (c # cs)
         \<and> word_boundary (is_word (last (take (length w) (c # cs)))) (drop (length w) (c # cs))
      then take (length w) (c # cs) @ '' (in simpler terms)'' @ drop (length w) (c # cs)
      else c # sub_word_once w (is_word c) cs)"

definition add_inline_examples :: "textstat \<Rightarrow> string \<Rightarrow> string" where
  "add_inline_examples ts content =
     (let complex_words = identify_complex_words ts content 3 in
      if complex_words = [] then content
      else fold (\<lambda>word modified.
                   if word \<notin> set [''example'', ''understanding'']
                      \<and> \<not> str_in (word @ '' ('') (lower modified)
                   then sub_word_once word False modified
                   else modified)
                (take 2 complex_words) content)"

definition add_examples :: "textstat \<Rightarrow> pyrun \<Rightarrow> string \<Rightarrow> signals \<Rightarrow> AdaptedContent" where
  "add_examples ts run content signals =
     (let example_markers = [''for example'', ''e.g.'', ''for instance'', ''such as''];
          has_examples = list_ex (\<lambda>marker. str_in marker (lower content)) example_markers;
          key_concepts = extract_key_concepts run content;
          (enhanced_content, changes) =
            (if \<not> has_examples \<and> key_concepts \<noteq> []
             then (content @ newline @ newline @ generate_example_section key_concepts,
                   [''Added example section for '' @ str_nat (length key_concepts)
                      @ '' key concepts''])
             else (content, []));
          inline_examples = add_inline_examples ts enhanced_content;
          (enhanced_content, changes) =
            (if inline_examples \<noteq> enhanced_content
             then (inline_examples, changes @ [''Added inline examples for complex terms''])
             else (enhanced_content, changes));
          changes =
            (if changes = [] then [''Content already contains sufficient examples'']
             else changes)
      in \<lparr> adaptation_type = ADD_EXAMPLES,
           ac_content = enhanced_content,
           ac_complexity_level = ''moderate'',
           changes_made = changes \<rparr>)"

subsection \<open>change-representation\<close>

definition convert_to_bullets :: "string \<Rightarrow> string" where
  "convert_to_bullets content =
     (let sentences = split_sentences content in
      if length sentences < 3 then content
      else join newline
             (map (\<lambda>sentence. engine_bullet @ '' '' @ strip sentence)
                  (filter (\<lambda>sentence. strip sentence \<noteq> []) sentences)))"

text \<open>\<open>enumerate(paragraphs, 1)\<close>, keeping the paragraphs that are not blank.\<close>

fun number_parts :: "nat \<Rightarrow> string list \<Rightarrow> string list" where
  "number_parts i [] = []"
| "number_parts i (para # paras) =
     (if strip para \<noteq> []
      then (''**Part '' @ str_nat i @ '':**'' @ newline @ para) # number_parts (i + 1) paras
      else number_parts (i + 1) paras)"

definition add_structure :: "string \<Rightarrow> string" where
  "add_structure content =
     (let paragraphs = split_sep (newline @ newline) content in
      if length paragraphs < 2 then
        (let sentences = split_sentences content in
         if length sentences \<ge> 4 then
           (let mid = length sentences div 2 in
            join (newline @ newline)
              [join '' '' (take mid sentences), join '' '' (drop mid sentences)])
         else content)
      else join (newline @ newline) (number_parts 1 paragraphs))"

definition add_summary :: "string \<Rightarrow> string" where
  "add_summary content =
     (let first_sentence = hd (split_sentences content);
          first_sentence =
            (if length first_sentence > 100 then take 100 first_sentence @ ''...''
             else first_sentence);
          summary = ''**Quick Overview:** '' @ first_sentence
                      @ newline @ newline @ ''---'' @ newline @ newline
      in summary @ content)"

definition change_representation :: "string \<Rightarrow> signals \<Rightarrow> AdaptedContent" where
  "change_representation content signals =
     (let (modified, changes) = (content, []);
          (modified, changes) =
            (if length content > 200 \<and> count_list content (CHR 0x0A) < 3 then
               (let bulleted = convert_to_bullets content in
                if bulleted \<noteq> content
                then (bulleted, changes @ [''Converted dense text to bullet points''])
                else (modified, changes))
             else (modified, changes));
          (modified, changes) =
            (if \<not> list_ex (\<lambda>marker. str_in marker content)
                        [engine_bullet, ''-'', ''*'', ''1.'', ''2.''] then
               (let structured = add_structure modified in
                if structured \<noteq> modified
                then (structured, changes @ [''Added structural organization''])
                else (modified, changes))
             else (modified, changes));
          (modified, changes) =
            (if length content > 500 then
               (let with_summary = add_summary modified in
                if with_summary \<noteq> modified
                then (with_summary, changes @ [''Added summary introduction''])
                else (modified, changes))
             else (modified, changes));
          changes = (if changes = [] then [''Reorganized content structure''] else changes)
      in \<lparr> adaptation_type = CHANGE_REPRESENTATION,
           ac_content = modified,
           ac_complexity_level = ''moderate'',
           changes_made = changes \<rparr>)"

subsection \<open>adjust-pace\<close>

text \<open>
  The loop \<open>for i in range(0, len(sentences), chunk_size)\<close>: the sentences three by
  three, joined by a blank, a chunk that is blank being left out.
\<close>

function group_sentences :: "nat \<Rightarrow> string list \<Rightarrow> string list" where
  "group_sentences chunk_size sentences =
     (if sentences = [] \<or> chunk_size = 0 then []
      else (let chunk = join '' '' (take chunk_size sentences) in
            if strip chunk \<noteq> []
            then chunk # group_sentences chunk_size (drop chunk_size sentences)
            else group_sentences chunk_size (drop chunk_size sentences)))"
  by pat_completeness auto
termination
  by (relation "measure (\<lambda>(chunk_size, sentences). length sentences)") auto

definition split_into_chunks :: "string \<Rightarrow> string list" where
  "split_into_chunks content =
     (let paragraphs = split_sep (newline @ newline) content in
      if length paragraphs \<ge> 3 then paragraphs
      else (let sentences = split_sentences content in
            if length sentences < 4 then [content]
            else group_sentences 3 sentences))"

text \<open>The loop of \<open>_add_pace_markers\<close>: a separator after every chunk but the last.\<close>

fun mark_chunks :: "string list \<Rightarrow> string list" where
  "mark_chunks [] = []"
| "mark_chunks [chunk] = [chunk]"
| "mark_chunks (chunk # rest) =
     chunk # (newline @ newline @ ''---'' @ newline @ newline) # mark_chunks rest"

definition add_pace_markers :: "string list \<Rightarrow> string" where
  "add_pace_markers chunks =
     (if length chunks \<le> 1 then (if chunks \<noteq> [] then hd chunks else [])
      else concat (mark_chunks chunks))"

definition reflection :: string where
  "reflection = newline @ newline @ pause_sign
                  @ '' **Pause and reflect:** What's the main point so far?''
                  @ newline @ newline"

text \<open>
  The loop \<open>for i in range(midpoint, search_end)\<close> of \<open>_add_reflection_prompts\<close>. Every
  index it reads is below \<open>search_end\<close>, which is at most the length of the text.
\<close>

function reflection_loop :: "string \<Rightarrow> nat \<Rightarrow> nat \<Rightarrow> string" where
  "reflection_loop content i search_end =
     (if i < search_end then
        (if is_punct (content ! i) \<and> i + 1 < length content
         then take (i + 1) content @ reflection @ drop (i + 1) content
         else reflection_loop content (i + 1) search_end)
      else content)"
  by pat_completeness auto
termination
  by (relation "measure (\<lambda>(content, i, search_end). search_end - i)") auto

definition add_reflection_prompts :: "string \<Rightarrow> string" where
  "add_reflection_prompts content =
     (let midpoint = length content div 2;
          search_start = max 0 (int midpoint - 50);
          search_end = min (length content) (midpoint + 50)
      in reflection_loop content midpoint search_end)"

definition adjust_pace :: "string \<Rightarrow> signals \<Rightarrow> AdaptedContent" where
  "adjust_pace content signals =
     (let chunks = split_into_chunks content;
          (paced_content, changes) =
            (if length chunks > 1
             then (add_pace_markers chunks,
                   [''Divided content into '' @ str_nat (length chunks)
                      @ '' digestible sections''])
             else (content, [''Content is already appropriately paced'']));
          (paced_content, changes) =
            (if length content > 800 then
               (let with_pauses = add_reflection_prompts paced_content in
                if with_pauses \<noteq> paced_content
                then (with_pauses, changes @ [''Added reflection checkpoints''])
                else (paced_content, changes))
             else (paced_content, changes))
      in \<lparr> adaptation_type = ADJUST_PACE,
           ac_content = paced_content,
           ac_complexity_level = ''simple'',
           changes_made = changes \<rparr>)"

subsection \<open>The adaptation request\<close>

fun apply_adaptation ::
  "textstat \<Rightarrow> pylib \<Rightarrow> pyrun \<Rightarrow> string \<Rightarrow> AdaptationType \<Rightarrow> signals
     \<Rightarrow> AdaptedContent option" where
  "apply_adaptation ts lib run content SIMPLIFY_LANGUAGE signals =
     Some (simplify_language ts lib content signals)"
| "apply_adaptation ts lib run content ADD_EXAMPLES signals =
     Some (add_examples ts run content signals)"
| "apply_adaptation ts lib run content CHANGE_REPRESENTATION signals =
     Some (change_representation content signals)"
| "apply_adaptation ts lib run content ADJUST_PACE signals =
     Some (adjust_pace content signals)"

text \<open>The truth value of \<open>signals.get(key)\<close>: a missing entry is \<open>None\<close>, which is false.\<close>

definition signal_true :: "signals \<Rightarrow> string \<Rightarrow> bool" where
  "signal_true signals k = (case signals k of Some v \<Rightarrow> v \<noteq> 0 | None \<Rightarrow> False)"

text \<open>The loop that returns the first adaptation whose type has a priority.\<close>

fun first_with_priority ::
  "(AdaptationType \<rightharpoonup> int) \<Rightarrow> AdaptedContent list \<Rightarrow> AdaptedContent option" where
  "first_with_priority signal_priority [] = None"
| "first_with_priority signal_priority (adaptation # rest) =
     (if signal_priority (adaptation_type adaptation) \<noteq> None then Some adaptation
      else first_with_priority signal_priority rest)"

text \<open>The dictionary \<open>signal_priority\<close> that \<open>_select_primary_adaptation\<close> builds.\<close>

definition build_signal_priority :: "signals \<Rightarrow> (AdaptationType \<rightharpoonup> int)" where
  "build_signal_priority signals =
     (let signal_priority = Map.empty;
          signal_priority =
            (if dict_get signals ''clarification_count'' 0 > 2
             then signal_priority(SIMPLIFY_LANGUAGE \<mapsto> 1) else signal_priority);
          signal_priority =
            (if signal_true signals ''is_repeated_error''
             then signal_priority(ADD_EXAMPLES \<mapsto> 1) else signal_priority);
          signal_priority =
            (if dict_get signals ''response_time_ms'' 0 > 15000
             then signal_priority(ADJUST_PACE \<mapsto> 1) else signal_priority)
      in signal_priority)"

definition select_primary_adaptation ::
  "AdaptedContent list \<Rightarrow> signals \<Rightarrow> AdaptedContent option" where
  "select_primary_adaptation adaptations signals =
     (if adaptations = [] then None
      else
        (let signal_priority = build_signal_priority signals
         in case first_with_priority signal_priority adaptations of
              Some adaptation \<Rightarrow> Some adaptation
            | None \<Rightarrow> Some (hd adaptations)))"

fun reason_of :: "AdaptationType \<Rightarrow> string" where
  "reason_of SIMPLIFY_LANGUAGE =
     ''Language simplified based on interaction patterns indicating comprehension barriers''"
| "reason_of ADD_EXAMPLES =
     ''Examples added to provide concrete understanding of abstract concepts''"
| "reason_of CHANGE_REPRESENTATION =
     ''Content restructured to offer alternative learning pathway''"
| "reason_of ADJUST_PACE =
     ''Content chunked to allow for gradual comprehension''"

definition build_adaptation_reasoning :: "AdaptationType list \<Rightarrow> signals \<Rightarrow> string" where
  "build_adaptation_reasoning requested_types signals =
     (let reasons = map reason_of requested_types in
      if reasons \<noteq> [] then join '' | '' reasons else ''Standard adaptation applied'')"

definition engine_generate_audit_hash ::
  "pylib \<Rightarrow> string \<Rightarrow> string \<Rightarrow> AdaptedContent list \<Rightarrow> string" where
  "engine_generate_audit_hash lib session original adaptations =
     (let data = [(''session'', PStr session),
                  (''original_hash'', PStr (take 16 (sha256_hexdigest lib original))),
                  (''adaptation_types'',
                     PStrList (sort (map (\<lambda>a. AdaptationType_value (adaptation_type a))
                                         adaptations)))];
          data_str = str_sorted_items lib data
      in take 16 (sha256_hexdigest lib data_str))"

definition generate_adaptation ::
  "textstat \<Rightarrow> pylib \<Rightarrow> pyrun \<Rightarrow> AdaptationRequest \<Rightarrow> AdaptationResult" where
  "generate_adaptation ts lib run request =
     (let adaptations =
            concat (map (\<lambda>requested.
                           case apply_adaptation ts lib run (original_content request)
                                  requested (interaction_signals request) of
                             Some adapted \<Rightarrow> [adapted]
                           | None \<Rightarrow> [])
                        (requested_adaptations request));
          primary = select_primary_adaptation adaptations (interaction_signals request);
          reasoning = build_adaptation_reasoning (requested_adaptations request)
                        (interaction_signals request);
          audit_hash = engine_generate_audit_hash lib (ar_session_hash request)
                         (original_content request) adaptations
      in \<lparr> ares_session_hash = ar_session_hash request,
           ares_original_content = original_content request,
           ares_adaptations = adaptations,
           ares_primary_recommendation = primary,
           ares_adaptation_reasoning = reasoning,
           ares_deterministic_hash = audit_hash \<rparr>)"

section \<open>Notions used in the statements\<close>




text \<open>The request of \<open>test_audit_hash_consistency\<close>, on the fixture \<open>simple_text\<close>.\<close>

definition simple_request :: BiasDetectionRequest where
  "simple_request =
     \<lparr> req_session_hash = ''test_123'',
       req_content_text = ''The cat sat on the mat. It was a happy cat.'',
       interaction_patterns = [],
       previous_adaptations = [] \<rparr>"

text \<open>The priority set of the primary recommendation, as a predicate on adaptation types.\<close>

definition in_priority_set :: "signals \<Rightarrow> AdaptationType \<Rightarrow> bool" where
  "in_priority_set signals t =
     ((t = SIMPLIFY_LANGUAGE \<and> dict_get signals ''clarification_count'' 0 > 2)
      \<or> (t = ADD_EXAMPLES \<and> signal_true signals ''is_repeated_error'')
      \<or> (t = ADJUST_PACE \<and> dict_get signals ''response_time_ms'' 0 > 15000))"

text \<open>
  A text of 882 characters whose only sentence boundary (a full stop and a blank at
  index 420) lies 21 characters before its midpoint 441.
\<close>

definition boundary_before_midpoint :: string where
  "boundary_before_midpoint =
     replicate 420 (CHR ''a'') @ ''. '' @ replicate 460 (CHR ''a'')"

section \<open>Properties of the interaction analyzer\<close>

lemma response_speed_taking_time:
  "(build_comprehension_indicators self i ''response_speed'' = Some (VStr ''taking_time''))
     = (response_time_ms i > slow_response_threshold self)"
  by (simp add: build_comprehension_indicators_def Let_def)

lemma analyze_single_fields:
  "response_pattern (analyze_single_interaction self i) =
     classify_response_pattern self (response_time_ms i) (action_type i)"
  "comprehension_indicators (analyze_single_interaction self i) =
     build_comprehension_indicators self i"
  "requires_adaptation (analyze_single_interaction self i) =
     fst (determine_adaptations self i (build_comprehension_indicators self i))"
  "suggested_adaptations (analyze_single_interaction self i) =
     snd (determine_adaptations self i (build_comprehension_indicators self i))"
  by (simp_all add: analyze_single_interaction_def Let_def split: prod.splits)

text \<open>
  C4 (as stated): the single-record classifier returns "deliberate" when response_time_ms is
  greater than or equal to the slow threshold and "quick" when it is less than or equal to
  the fast threshold, the inclusive comparisons holding at exactly 10,000 ms and 1,000 ms.
  The code compares strictly: a "read" action at exactly 10,000 ms, and one at exactly
  1,000 ms, is classified "normal".
\<close>

theorem classify_inclusive_counterexample:
  "response_pattern (analyze_single_interaction InteractionAnalyzer_init
      \<lparr> session_hash = ''s'', content_id = ''c'', response_time_ms = 10000,
        action_type = ''read'', content_text = None, is_repeated_error = False,
        clarification_count = 0, time_on_content_seconds = 30 \<rparr>) = ''normal''
   \<and> response_pattern (analyze_single_interaction InteractionAnalyzer_init
      \<lparr> session_hash = ''s'', content_id = ''c'', response_time_ms = 10000,
        action_type = ''read'', content_text = None, is_repeated_error = False,
        clarification_count = 0, time_on_content_seconds = 30 \<rparr>) \<noteq> ''deliberate''
   \<and> response_pattern (analyze_single_interaction InteractionAnalyzer_init
      \<lparr> session_hash = ''s'', content_id = ''c'', response_time_ms = 1000,
        action_type = ''read'', content_text = None, is_repeated_error = False,
        clarification_count = 0, time_on_content_seconds = 30 \<rparr>) = ''normal''
   \<and> response_pattern (analyze_single_interaction InteractionAnalyzer_init
      \<lparr> session_hash = ''s'', content_id = ''c'', response_time_ms = 1000,
        action_type = ''read'', content_text = None, is_repeated_error = False,
        clarification_count = 0, time_on_content_seconds = 30 \<rparr>) \<noteq> ''quick''"
  by (simp add: analyze_single_fields classify_response_pattern_def InteractionAnalyzer_init_def
      DEFAULT_SLOW_RESPONSE_MS_def DEFAULT_FAST_RESPONSE_MS_def)

text \<open>
  C4 (amended): for every interaction record the response pattern is "seeking_help" when
  action_type is "clarification"; otherwise "deliberate" when response_time_ms is strictly
  greater than the slow threshold (default 10,000 ms); otherwise "quick" when it is strictly
  less than the fast threshold (default 1,000 ms); otherwise "normal". The action-type check
  takes precedence over the timing checks.
\<close>

theorem classify_response_pattern_strict:
  "response_pattern (analyze_single_interaction self i) =
     (if action_type i = ''clarification'' then ''seeking_help''
      else if slow_response_threshold self < response_time_ms i then ''deliberate''
      else if response_time_ms i < fast_response_threshold self then ''quick''
      else ''normal'')
   \<and> slow_response_threshold InteractionAnalyzer_init = 10000
   \<and> fast_response_threshold InteractionAnalyzer_init = 1000"
  by (simp add: analyze_single_fields classify_response_pattern_def InteractionAnalyzer_init_def
      DEFAULT_SLOW_RESPONSE_MS_def DEFAULT_FAST_RESPONSE_MS_def)

text \<open>
  C5: the single-record classifier returns requires_adaptation = true with a non-empty
  suggested_adaptations list if and only if the response-speed indicator is taking_time
  (contributing simplify-language), or is_repeated_error is true (contributing add-examples
  and change-representation), or clarification_count is at least the high-clarification
  threshold (default 3, contributing simplify-language). A record with
  response_time_ms = 25000 and is_repeated_error = true requires adaptation.
\<close>

theorem requires_adaptation_iff:
  "requires_adaptation (analyze_single_interaction self i)
     = (suggested_adaptations (analyze_single_interaction self i) \<noteq> [])
   \<and> requires_adaptation (analyze_single_interaction self i)
     = (comprehension_indicators (analyze_single_interaction self i) ''response_speed''
          = Some (VStr ''taking_time'')
        \<or> is_repeated_error i
        \<or> high_clarification_threshold self \<le> clarification_count i)
   \<and> suggested_adaptations (analyze_single_interaction self i)
     = (if comprehension_indicators (analyze_single_interaction self i) ''response_speed''
            = Some (VStr ''taking_time'')
        then [SIMPLIFY_LANGUAGE] else [])
       @ (if is_repeated_error i then [ADD_EXAMPLES, CHANGE_REPRESENTATION] else [])
       @ (if high_clarification_threshold self \<le> clarification_count i
          then [SIMPLIFY_LANGUAGE] else [])
   \<and> high_clarification_threshold InteractionAnalyzer_init = 3
   \<and> requires_adaptation (analyze_single_interaction InteractionAnalyzer_init
         (i\<lparr> response_time_ms := 25000, is_repeated_error := True \<rparr>))
   \<and> requires_adaptation (analyze_single_interaction InteractionAnalyzer_init slow_interaction)
   \<and> response_pattern (analyze_single_interaction InteractionAnalyzer_init slow_interaction)
       = ''deliberate''"
  by (simp add: analyze_single_fields determine_adaptations_def Let_def
      classify_response_pattern_def slow_interaction_def
      InteractionAnalyzer_init_def DEFAULT_HIGH_CLARIFICATION_COUNT_def
      DEFAULT_SLOW_RESPONSE_MS_def DEFAULT_FAST_RESPONSE_MS_def)

section \<open>Properties of the text analysis\<close>













section \<open>Properties of the bias detector\<close>









lemma sort_cong_mset: "mset xs = mset ys \<Longrightarrow> sort xs = sort ys"
  by (rule properties_for_sort) simp_all

lemma audit_hash_cong:
  assumes "mset (map (\<lambda>i. BiasType_value (bias_type i)) inds1)
         = mset (map (\<lambda>i. BiasType_value (bias_type i)) inds2)"
  shows "generate_audit_hash lib session content inds1 = generate_audit_hash lib session content inds2"
proof -
  have "length inds1 = length inds2"
    using assms by (metis length_map size_mset)
  moreover have "sort (map (\<lambda>i. BiasType_value (bias_type i)) inds1)
      = sort (map (\<lambda>i. BiasType_value (bias_type i)) inds2)"
    using assms by (rule sort_cong_mset)
  ultimately show ?thesis
    by (simp add: generate_audit_hash_def)
qed

lemma map_jargon_type_concat:
  "map jargon_type (concat (map (\<lambda>p. if c p then [Academic_language (f p) sg] else []) ps))
     = concat (map (\<lambda>p. if c p then [''academic_language''] else []) ps)"
  by (induction ps) auto

lemma jargon_types:
  "map jargon_type (identify_jargon_patterns run1 text)
     = map jargon_type (identify_jargon_patterns run2 text)"
  unfolding identify_jargon_patterns_def Let_def
  by (simp add: map_jargon_type_concat)


lemma jargon_indicator_types:
  "map bias_type (jargon_indicators ps)
     = concat (map (\<lambda>t. if t = ''academic_language'' then [LANGUAGE_COMPLEXITY] else [])
                   (map jargon_type ps))"
  by (induction ps) auto

lemma lc_types:
  "map bias_type (detect_language_complexity_bias self ts lib run1 c m)
     = map bias_type (detect_language_complexity_bias self ts lib run2 c m)"
  unfolding detect_language_complexity_bias_def Let_def
  by (simp add: jargon_indicator_types jargon_types [of run1 c run2])


lemma detect_bias_types:
  "map bias_type (indicators (detect_bias self ts lib run1 req))
     = map bias_type (indicators (detect_bias self ts lib run2 req))"
  unfolding detect_bias_def Let_def
  by (simp add: lc_types [of self ts lib run1 _ _ run2])

lemma detect_bias_hash:
  "deterministic_hash (detect_bias self ts lib run req) =
     generate_audit_hash lib (req_session_hash req) (req_content_text req)
       (indicators (detect_bias self ts lib run req))"
  unfolding detect_bias_def Let_def by simp

lemma bias_hash_run:
  "deterministic_hash (detect_bias self ts lib run1 req)
     = deterministic_hash (detect_bias self ts lib run2 req)"
proof -
  have "map BiasType_value (map bias_type (indicators (detect_bias self ts lib run1 req)))
      = map BiasType_value (map bias_type (indicators (detect_bias self ts lib run2 req)))"
    by (simp only: detect_bias_types [of self ts lib run1 req run2])
  then have "mset (map (\<lambda>i. BiasType_value (bias_type i)) (indicators (detect_bias self ts lib run1 req)))
      = mset (map (\<lambda>i. BiasType_value (bias_type i)) (indicators (detect_bias self ts lib run2 req)))"
    by (simp add: comp_def)
  then show ?thesis
    unfolding detect_bias_hash by (rule audit_hash_cong)
qed



text \<open>
  C10: the audit hash of the bias detector depends only on the session hash, the content
  text, and the number and the sorted list of the names of the indicators' bias types: two
  indicator lists with the same multiset of bias-type names give the same hash for the same
  session hash and content, whatever their severities, confidences, descriptions and
  affected segments are.
\<close>

theorem audit_hash_depends_on_type_names:
  assumes "mset (map (\<lambda>i. BiasType_value (bias_type i)) inds1)
         = mset (map (\<lambda>i. BiasType_value (bias_type i)) inds2)"
  shows "generate_audit_hash lib session content inds1 = generate_audit_hash lib session content inds2"
  using assms by (rule audit_hash_cong)

theorem audit_hash_depends_on_type_names_witness:
  "\<forall>lib session content.
     mset (map (\<lambda>i. BiasType_value (bias_type i))
        [\<lparr> bias_type = LANGUAGE_COMPLEXITY, severity = HIGH, confidence = 85 / 100,
            description = ''first'', affected_content_segment = Some ''segment'' \<rparr>,
         \<lparr> bias_type = PACE_MISMATCH, severity = MEDIUM, confidence = 60 / 100,
            description = ''second'', affected_content_segment = None \<rparr>])
     = mset (map (\<lambda>i. BiasType_value (bias_type i))
        [\<lparr> bias_type = PACE_MISMATCH, severity = HIGH, confidence = 75 / 100,
            description = ''third'', affected_content_segment = None \<rparr>,
         \<lparr> bias_type = LANGUAGE_COMPLEXITY, severity = LOW, confidence = 60 / 100,
            description = ''fourth'', affected_content_segment = None \<rparr>])
     \<and> generate_audit_hash lib session content
        [\<lparr> bias_type = LANGUAGE_COMPLEXITY, severity = HIGH, confidence = 85 / 100,
            description = ''first'', affected_content_segment = Some ''segment'' \<rparr>,
         \<lparr> bias_type = PACE_MISMATCH, severity = MEDIUM, confidence = 60 / 100,
            description = ''second'', affected_content_segment = None \<rparr>]
     = generate_audit_hash lib session content
        [\<lparr> bias_type = PACE_MISMATCH, severity = HIGH, confidence = 75 / 100,
            description = ''third'', affected_content_segment = None \<rparr>,
         \<lparr> bias_type = LANGUAGE_COMPLEXITY, severity = LOW, confidence = 60 / 100,
            description = ''fourth'', affected_content_segment = None \<rparr>]"
proof (intro allI)
  fix lib session content
  let ?a = "[\<lparr> bias_type = LANGUAGE_COMPLEXITY, severity = HIGH, confidence = 85 / 100,
            description = ''first'', affected_content_segment = Some ''segment'' \<rparr>,
         \<lparr> bias_type = PACE_MISMATCH, severity = MEDIUM, confidence = 60 / 100,
            description = ''second'', affected_content_segment = None \<rparr>]"
  let ?b = "[\<lparr> bias_type = PACE_MISMATCH, severity = HIGH, confidence = 75 / 100,
            description = ''third'', affected_content_segment = None \<rparr>,
         \<lparr> bias_type = LANGUAGE_COMPLEXITY, severity = LOW, confidence = 60 / 100,
            description = ''fourth'', affected_content_segment = None \<rparr>]"
  have m: "mset (map (\<lambda>i. BiasType_value (bias_type i)) ?a)
         = mset (map (\<lambda>i. BiasType_value (bias_type i)) ?b)"
    by simp
  show "mset (map (\<lambda>i. BiasType_value (bias_type i)) ?a)
         = mset (map (\<lambda>i. BiasType_value (bias_type i)) ?b)
        \<and> generate_audit_hash lib session content ?a = generate_audit_hash lib session content ?b"
    using m audit_hash_depends_on_type_names [OF m, of lib session content] by (simp only: simp_thms)
qed

lemma detect_bias_timestamp:
  "analysis_timestamp (detect_bias self ts lib run req) = utcnow_isoformat run"
  unfolding detect_bias_def Let_def by simp

lemma jargon_run_cong:
  assumes "set_iter_str run1 = set_iter_str run2"
  shows "identify_jargon_patterns run1 text = identify_jargon_patterns run2 text"
  unfolding identify_jargon_patterns_def assms by (rule refl)

lemma lc_run_cong:
  "set_iter_str run1 = set_iter_str run2 \<Longrightarrow>
   detect_language_complexity_bias self ts lib run1 c m
     = detect_language_complexity_bias self ts lib run2 c m"
  unfolding detect_language_complexity_bias_def
  by (simp only: jargon_run_cong [of run1 run2 c])

lemma recommendations_run_cong:
  assumes "set_iter_adapt run1 = set_iter_adapt run2"
  shows "build_recommendations run1 inds = build_recommendations run2 inds"
  unfolding build_recommendations_def assms by (rule refl)


text \<open>
  C2 (as stated): for every pair of calls of detect-bias with the same content_text,
  interaction_patterns and session_hash the whole BiasDetectionResult is identical field for
  field, analysis_timestamp included. The timestamp is the reading of the clock at the call:
  two calls with the request of the determinism test, made one microsecond apart, return
  different results, whatever the libraries compute.
\<close>

theorem detect_bias_timestamp_counterexample:
  "\<forall>self ts lib order_str order_adapt.
     detect_bias self ts lib
       \<lparr> utcnow_isoformat = ''2024-05-01T10:00:00.000001'',
         set_iter_str = order_str, set_iter_adapt = order_adapt \<rparr> simple_request
     \<noteq> detect_bias self ts lib
       \<lparr> utcnow_isoformat = ''2024-05-01T10:00:00.000002'',
         set_iter_str = order_str, set_iter_adapt = order_adapt \<rparr> simple_request"
proof (intro allI notI)
  fix self ts lib order_str order_adapt
  let ?run1 = "\<lparr> utcnow_isoformat = ''2024-05-01T10:00:00.000001'',
                 set_iter_str = order_str, set_iter_adapt = order_adapt \<rparr>"
  let ?run2 = "\<lparr> utcnow_isoformat = ''2024-05-01T10:00:00.000002'',
                 set_iter_str = order_str, set_iter_adapt = order_adapt \<rparr>"
  assume "detect_bias self ts lib ?run1 simple_request
            = detect_bias self ts lib ?run2 simple_request"
  then have "analysis_timestamp (detect_bias self ts lib ?run1 simple_request)
               = analysis_timestamp (detect_bias self ts lib ?run2 simple_request)"
    by (rule arg_cong)
  then show False
    unfolding detect_bias_timestamp by simp
qed


text \<open>
  C2 (amended): for every pair of calls of detect-bias with the same content_text,
  interaction_patterns and session_hash, made where sets are iterated in the same order (as
  in one process), the returned BiasDetectionResult is identical field for field, the
  indicators and the recommended_actions in their order included, except for
  analysis_timestamp, which is the clock reading of each call.
\<close>

theorem detect_bias_deterministic_up_to_timestamp:
  assumes "set_iter_str run1 = set_iter_str run2"
      and "set_iter_adapt run1 = set_iter_adapt run2"
  shows "detect_bias self ts lib run1 req
           = (detect_bias self ts lib run2 req)\<lparr> analysis_timestamp := utcnow_isoformat run1 \<rparr>
         \<and> analysis_timestamp (detect_bias self ts lib run2 req) = utcnow_isoformat run2"
proof -
  have "detect_bias self ts lib run1 req
           = (detect_bias self ts lib run2 req)\<lparr> analysis_timestamp := utcnow_isoformat run1 \<rparr>"
    unfolding detect_bias_def Let_def
    by (simp add: lc_run_cong [OF assms(1)] recommendations_run_cong [OF assms(2)])
  then show ?thesis
    by (simp only: detect_bias_timestamp simp_thms)
qed

theorem detect_bias_deterministic_up_to_timestamp_witness:
  "\<forall>self ts lib req.
     set_iter_str \<lparr> utcnow_isoformat = ''2024-05-01T10:00:00.000001'',
                    set_iter_str = remdups, set_iter_adapt = remdups \<rparr>
       = set_iter_str \<lparr> utcnow_isoformat = ''2024-05-01T10:00:07.500000'',
                        set_iter_str = remdups, set_iter_adapt = remdups \<rparr>
     \<and> detect_bias self ts lib
           \<lparr> utcnow_isoformat = ''2024-05-01T10:00:00.000001'',
             set_iter_str = remdups, set_iter_adapt = remdups \<rparr> req
         = (detect_bias self ts lib
              \<lparr> utcnow_isoformat = ''2024-05-01T10:00:07.500000'',
                set_iter_str = remdups, set_iter_adapt = remdups \<rparr> req)
             \<lparr> analysis_timestamp := ''2024-05-01T10:00:00.000001'' \<rparr>"
proof (intro allI)
  fix self ts lib req
  let ?run1 = "\<lparr> utcnow_isoformat = ''2024-05-01T10:00:00.000001'',
                 set_iter_str = remdups, set_iter_adapt = remdups \<rparr>"
  let ?run2 = "\<lparr> utcnow_isoformat = ''2024-05-01T10:00:07.500000'',
                 set_iter_str = remdups, set_iter_adapt = remdups \<rparr>"
  have s: "set_iter_str ?run1 = set_iter_str ?run2" by simp
  have a: "set_iter_adapt ?run1 = set_iter_adapt ?run2" by simp
  show "set_iter_str ?run1 = set_iter_str ?run2
        \<and> detect_bias self ts lib ?run1 req
            = (detect_bias self ts lib ?run2 req)
                \<lparr> analysis_timestamp := ''2024-05-01T10:00:00.000001'' \<rparr>"
    using s detect_bias_deterministic_up_to_timestamp [OF s a, of self ts lib req]
    by simp
qed

section \<open>Properties of the adaptive engine\<close>

lemma simplify_language_type [simp]:
  "adaptation_type (simplify_language ts lib c sg) = SIMPLIFY_LANGUAGE"
  unfolding simplify_language_def Let_def by simp

lemma add_examples_type [simp]:
  "adaptation_type (add_examples ts run c sg) = ADD_EXAMPLES"
  unfolding add_examples_def Let_def case_prod_beta by simp

lemma change_representation_type [simp]:
  "adaptation_type (change_representation c sg) = CHANGE_REPRESENTATION"
  unfolding change_representation_def Let_def case_prod_beta by simp

lemma adjust_pace_type [simp]:
  "adaptation_type (adjust_pace c sg) = ADJUST_PACE"
  unfolding adjust_pace_def Let_def case_prod_beta by simp

lemma apply_adaptation_type:
  "apply_adaptation ts lib run c t sg = Some a \<Longrightarrow> adaptation_type a = t"
  by (cases t) auto

lemma apply_adaptation_some: "\<exists>a. apply_adaptation ts lib run c t sg = Some a"
  by (cases t) auto

lemma adapted_types:
  "map adaptation_type
     (concat (map (\<lambda>requested.
        case apply_adaptation ts lib run c requested sg of
          Some adapted \<Rightarrow> [adapted] | None \<Rightarrow> []) rs)) = rs"
proof (induction rs)
  case Nil
  show ?case by simp
next
  case (Cons r rs)
  obtain a where a: "apply_adaptation ts lib run c r sg = Some a"
    using apply_adaptation_some by blast
  with Cons show ?case by (simp add: apply_adaptation_type [OF a])
qed

lemma engine_types:
  "map adaptation_type (ares_adaptations (generate_adaptation ts lib run req))
     = requested_adaptations req"
  unfolding generate_adaptation_def Let_def by (simp add: adapted_types)

lemma engine_hash_types:
  "ares_deterministic_hash (generate_adaptation ts lib run req) =
     take 16 (sha256_hexdigest lib (str_sorted_items lib
       [(''session'', PStr (ar_session_hash req)),
        (''original_hash'', PStr (take 16 (sha256_hexdigest lib (original_content req)))),
        (''adaptation_types'',
           PStrList (sort (map AdaptationType_value (requested_adaptations req))))]))"
proof -
  have "ares_deterministic_hash (generate_adaptation ts lib run req) =
     take 16 (sha256_hexdigest lib (str_sorted_items lib
       [(''session'', PStr (ar_session_hash req)),
        (''original_hash'', PStr (take 16 (sha256_hexdigest lib (original_content req)))),
        (''adaptation_types'',
           PStrList (sort (map AdaptationType_value
             (map adaptation_type (ares_adaptations (generate_adaptation ts lib run req))))))]))"
    unfolding generate_adaptation_def engine_generate_audit_hash_def Let_def
    by (simp add: comp_def)
  then show ?thesis by (simp only: engine_types)
qed

lemma first_with_priority_find:
  "first_with_priority pr ads = find (\<lambda>a. pr (adaptation_type a) \<noteq> None) ads"
  by (induction ads) auto

lemma priority_dom:
  "(build_signal_priority sg t \<noteq> None) = in_priority_set sg t"
  by (cases t) (simp_all add: build_signal_priority_def in_priority_set_def Let_def)

lemma select_primary:
  "select_primary_adaptation ads sg =
     (case ads of
        [] \<Rightarrow> None
      | a # _ \<Rightarrow>
          (case find (\<lambda>b. in_priority_set sg (adaptation_type b)) ads of
             Some b \<Rightarrow> Some b
           | None \<Rightarrow> Some a))"
proof (cases ads)
  case Nil
  then show ?thesis by (simp add: select_primary_adaptation_def)
next
  case (Cons a rest)
  have "select_primary_adaptation ads sg =
          (case find (\<lambda>b. in_priority_set sg (adaptation_type b)) ads of
             Some b \<Rightarrow> Some b
           | None \<Rightarrow> Some (hd ads))"
    unfolding select_primary_adaptation_def Let_def first_with_priority_find priority_dom
    using Cons by simp
  then show ?thesis
    using Cons by (simp split: option.splits)
qed

lemma generate_adaptation_primary:
  "ares_primary_recommendation (generate_adaptation ts lib run req) =
     select_primary_adaptation (ares_adaptations (generate_adaptation ts lib run req))
       (interaction_signals req)"
  unfolding generate_adaptation_def Let_def by simp

text \<open>
  C1: for fixed content_text, interaction_patterns and session_hash the audit hash returned
  by detect-bias is the same in any two calls, and for fixed original_content,
  requested_adaptations, interaction_signals and session_hash so is the audit hash returned
  by generate-adaptation: neither depends on the clock or on the order in which sets are
  iterated, the two things that can differ between calls.
\<close>

theorem audit_hash_deterministic:
  "deterministic_hash (detect_bias self ts lib run1 req)
     = deterministic_hash (detect_bias self ts lib run2 req)
   \<and> ares_deterministic_hash (generate_adaptation ts lib run1 areq)
     = ares_deterministic_hash (generate_adaptation ts lib run2 areq)"
  using bias_hash_run [of self ts lib run1 req run2]
  by (simp only: engine_hash_types simp_thms)

text \<open>
  C7: the primary recommendation of an adaptation request. The priority set holds
  simplify-language when clarification_count is above 2, add-examples when
  is_repeated_error is true, adjust-pace when response_time_ms is above 15000. The
  adaptations are produced in the order of the requested types; the first of them whose
  type is in the priority set is returned; if there is none, the first adaptation; if no
  adaptation was produced, nothing.
\<close>

theorem primary_recommendation_selection:
  "ares_primary_recommendation (generate_adaptation ts lib run req) =
     (case ares_adaptations (generate_adaptation ts lib run req) of
        [] \<Rightarrow> None
      | a # _ \<Rightarrow>
          (case find (\<lambda>b. in_priority_set (interaction_signals req) (adaptation_type b))
                  (ares_adaptations (generate_adaptation ts lib run req)) of
             Some b \<Rightarrow> Some b
           | None \<Rightarrow> Some a))
   \<and> map adaptation_type (ares_adaptations (generate_adaptation ts lib run req))
       = requested_adaptations req
   \<and> in_priority_set signals t =
       ((t = SIMPLIFY_LANGUAGE \<and> dict_get signals ''clarification_count'' 0 > 2)
        \<or> (t = ADD_EXAMPLES \<and> signal_true signals ''is_repeated_error'')
        \<or> (t = ADJUST_PACE \<and> dict_get signals ''response_time_ms'' 0 > 15000))"
  by (simp only: generate_adaptation_primary select_primary engine_types in_priority_set_def
      simp_thms)

lemma split_sep_acc_absent:
  "c \<notin> set s \<Longrightarrow> split_sep_acc (c # rest) acc s = [acc @ s]"
  by (induction s arbitrary: acc) auto

lemma split_sentences_acc_append:
  "\<forall>c \<in> set x. \<not> is_space c \<Longrightarrow>
   split_sentences_acc acc (x @ r) = split_sentences_acc (acc @ x) r"
  by (induction x arbitrary: acc) auto

lemma split_sentences_acc_no_space:
  "\<forall>c \<in> set s. \<not> is_space c \<Longrightarrow> split_sentences_acc acc s = [acc @ s]"
  using split_sentences_acc_append [of s acc "[]"] by simp

lemma a_no_space: "\<not> is_space (CHR ''a'')"
  by (simp add: is_space_def)

lemma chunks_single:
  "split_into_chunks boundary_before_midpoint = [boundary_before_midpoint]"
proof -
  have p: "split_sep (newline @ newline) boundary_before_midpoint = [boundary_before_midpoint]"
    unfolding split_sep_def newline_def boundary_before_midpoint_def
    by (simp add: split_sep_acc_absent)
  have "split_sentences boundary_before_midpoint =
          split_sentences_acc (replicate 420 (CHR ''a'')) (''. '' @ replicate 460 (CHR ''a''))"
    unfolding split_sentences_def boundary_before_midpoint_def
    using split_sentences_acc_append [of "replicate 420 (CHR ''a'')" "[]"]
    by (simp add: a_no_space)
  also have "\<dots> = [replicate 420 (CHR ''a'') @ ''.'', replicate 460 (CHR ''a'')]"
    by (simp add: is_space_def is_punct_def split_sentences_acc_no_space)
  finally have s: "length (split_sentences boundary_before_midpoint) = 2"
    by simp
  show ?thesis
    unfolding split_into_chunks_def Let_def p using s by simp
qed

lemma reflect_unchanged:
  "add_reflection_prompts boundary_before_midpoint = boundary_before_midpoint"
  by code_simp


text \<open>
  C8: for content longer than 800 characters the adjust-pace transform looks for the
  sentence boundary nearest the midpoint within 50 characters on either side of it and
  inserts the "Pause and reflect" prompt there. The code computes the start of that window
  and never uses it: the loop runs from the midpoint forward only. On a text of 882
  characters whose only boundary is at index 420, inside the window (391 to 491) but before
  the midpoint 441, it inserts nothing.
\<close>

theorem adjust_pace_misses_boundary_before_midpoint:
  "length boundary_before_midpoint = 882
   \<and> boundary_before_midpoint ! 420 = CHR ''.''
   \<and> boundary_before_midpoint ! 421 = CHR '' ''
   \<and> length boundary_before_midpoint div 2 - 50 \<le> 420
   \<and> 420 < length boundary_before_midpoint div 2
   \<and> ac_content (adjust_pace boundary_before_midpoint signals) = boundary_before_midpoint
   \<and> changes_made (adjust_pace boundary_before_midpoint signals)
        = [''Content is already appropriately paced'']"
proof -
  have l: "length boundary_before_midpoint = 882"
    by (simp add: boundary_before_midpoint_def)
  have d: "boundary_before_midpoint ! 420 = CHR ''.''"
    by (simp add: boundary_before_midpoint_def nth_append)
  have e: "boundary_before_midpoint ! 421 = CHR '' ''"
    by (simp add: boundary_before_midpoint_def nth_append)
  show ?thesis
    unfolding adjust_pace_def Let_def chunks_single
    using l d e by (simp add: reflect_unchanged)
qed

end
